theory Spec2Isabelle
  imports Main "HOL-Library.Log_Nat"
begin

section \<open>Python values used by the dynamic table\<close>

text \<open>
  The exceptions of \<^verbatim>\<open>errors.py\<close> that the modelled operations raise, together with the
  built-in and storage-layer exceptions that can escape from them.  A raise is the
  \<open>Inl\<close> branch of a sum.
\<close>

datatype error =
    ValueError | TypeError | OverflowError | AttributeError
  | DynamicTableError | TableHaveNoColumn | ColumnNotInTable | RowNotInTable
  | DuplicateColumnInTable | UnSupportedDataType | CantParseValueToDataType
  | CellDoesNotExist | IntegrityError | MultipleObjectsReturned | DoesNotExist

text \<open>
  A Python \<^verbatim>\<open>float\<close> is an IEEE binary64 number.  A finite non-zero one is kept as a
  signed mantissa and a binary exponent, \<open>m * 2 ^ e\<close>, in the canonical form
  \<open>2 ^ 52 \<le> \<bar>m\<bar> < 2 ^ 53\<close> (or \<open>e = - 1074\<close> for a subnormal); \<open>Finite 0 0\<close> is \<open>0.0\<close>.
\<close>

datatype pyfloat = Finite int int | NegZero | PosInf | NegInf | NaN

text \<open>
  The values a caller hands to a cell: empty, boolean, number, string or a native
  date/time.  The date/time type itself belongs to the standard library and is a type
  parameter.
\<close>

datatype 'dt pyval =
    PNone | PBool bool | PInt int | PFloat pyfloat | PStr string | PDatetime 'dt

text \<open>
  Standard-library functions whose results the model does not compute: the shortest
  repr of a float, the ISO-8601 parser and printer of \<^verbatim>\<open>datetime\<close>, \<^verbatim>\<open>str\<close> of a
  \<^verbatim>\<open>datetime\<close>, and \<^verbatim>\<open>eval\<close> on expressions other than the two boolean literals.
  They are passed in, and nothing is assumed about them.
\<close>

record 'dt pylib =
  float_repr :: "pyfloat \<Rightarrow> string"
  fromisoformat :: "string \<Rightarrow> 'dt option"
  isoformat :: "'dt \<Rightarrow> string"
  datetime_str :: "'dt \<Rightarrow> string"
  eval_expr :: "string \<Rightarrow> 'dt pyval option"

subsection \<open>Strings\<close>

text \<open>
  Text is a list of 8-bit characters, the code points 0 to 255.  \<^verbatim>\<open>str.lower\<close>,
  \<^verbatim>\<open>str.strip\<close> and \<^verbatim>\<open>str.title\<close> are the interpreter's on that range: white space
  is the code points 9 to 13, 28 to 32, 133 and 160; the upper-case letters are
  \<^verbatim>\<open>A\<close> to \<^verbatim>\<open>Z\<close> and the code points 192 to 222 without 215, each 32 below its
  lower-case letter; cased are the letters of either case and the code points 170, 181,
  186, 223 and 255.  The title case of the code point 223 is the two letters \<^verbatim>\<open>Ss\<close>;
  the title case of the code points 181 and 255 lies beyond code point 255, and
  \<open>None\<close> stands for a text with such a character.
\<close>

definition code_point :: "char \<Rightarrow> nat" where
  "code_point c = of_char c"

definition is_digit :: "char \<Rightarrow> bool" where
  "is_digit c = (c \<in> set ''0123456789'')"

definition digit_val :: "char \<Rightarrow> nat" where
  "digit_val c = of_char c - 48"

definition is_upper :: "char \<Rightarrow> bool" where
  "is_upper c =
     (let n = code_point c
      in (65 \<le> n \<and> n \<le> 90) \<or> (192 \<le> n \<and> n \<le> 222 \<and> n \<noteq> 215))"

definition is_lower :: "char \<Rightarrow> bool" where
  "is_lower c =
     (let n = code_point c
      in (97 \<le> n \<and> n \<le> 122) \<or> (224 \<le> n \<and> n \<le> 254 \<and> n \<noteq> 247))"

definition is_cased :: "char \<Rightarrow> bool" where
  "is_cased c =
     (is_upper c \<or> is_lower c \<or> code_point c \<in> {170, 181, 186, 223, 255})"

definition to_lower :: "char \<Rightarrow> char" where
  "to_lower c = (if is_upper c then char_of (code_point c + 32) else c)"

definition to_title :: "char \<Rightarrow> string option" where
  "to_title c =
     (if is_lower c then Some [char_of (code_point c - 32)]
      else if code_point c = 223 then Some ''Ss''
      else if code_point c = 181 \<or> code_point c = 255 then None
      else Some [c])"

definition is_space :: "char \<Rightarrow> bool" where
  "is_space c = (code_point c \<in> {9, 10, 11, 12, 13, 28, 29, 30, 31, 32, 133, 160})"

definition lower :: "string \<Rightarrow> string" where
  "lower s = map to_lower s"

definition strip :: "string \<Rightarrow> string" where
  "strip s = rev (dropWhile is_space (rev (dropWhile is_space s)))"

text \<open>
  \<^verbatim>\<open>str.title\<close>: a character that follows a cased one is lower-cased, any other is
  title-cased.
\<close>

fun title_from :: "bool \<Rightarrow> string \<Rightarrow> string option" where
  "title_from previous_is_cased [] = Some []"
| "title_from previous_is_cased (c # cs) =
     (case (if previous_is_cased then Some [to_lower c] else to_title c) of
        None \<Rightarrow> None
      | Some t \<Rightarrow>
          (case title_from (is_cased c) cs of
             None \<Rightarrow> None
           | Some r \<Rightarrow> Some (t @ r)))"

definition title :: "string \<Rightarrow> string option" where
  "title s = title_from False s"

subsection \<open>Numbers\<close>

fun digits_of_nat :: "nat \<Rightarrow> string" where
  "digits_of_nat n =
     (if n < 10 then [char_of (48 + n)] else digits_of_nat (n div 10) @ [char_of (48 + n mod 10)])"

definition str_of_int :: "int \<Rightarrow> string" where
  "str_of_int i = (if i < 0 then CHR ''-'' # digits_of_nat (nat (- i)) else digits_of_nat (nat i))"

text \<open>
  Rounding the positive rational \<open>n / d\<close> to the nearest binary64 number, ties to even,
  in integer arithmetic.  \<open>None\<close> is a magnitude beyond the largest finite double.
\<close>

definition pow2_le :: "int \<Rightarrow> nat \<Rightarrow> nat \<Rightarrow> bool" where
  "pow2_le k n d = (if 0 \<le> k then 2 ^ nat k * d \<le> n else d \<le> n * 2 ^ nat (- k))"

definition ilog2 :: "nat \<Rightarrow> nat \<Rightarrow> int" where
  "ilog2 n d =
     (let k = int (floorlog 2 n) - int (floorlog 2 d)
      in if pow2_le k n d then k else k - 1)"

definition round_half_even :: "nat \<Rightarrow> nat \<Rightarrow> nat" where
  "round_half_even n d =
     (let q = n div d; r = n mod d
      in if 2 * r < d then q else if d < 2 * r then q + 1 else if even q then q else q + 1)"

definition round_double :: "nat \<Rightarrow> nat \<Rightarrow> (nat \<times> int) option" where
  "round_double n d =
     (let e = max (ilog2 n d - 52) (- 1074);
          m = (if 0 \<le> e then round_half_even n (d * 2 ^ nat e)
               else round_half_even (n * 2 ^ nat (- e)) d);
          (m', e') = (if m = 2 ^ 53 then (2 ^ 52, e + 1) else (m, e))
      in if 971 < e' then None else Some (m', e'))"

definition float_of_ratio :: "bool \<Rightarrow> nat \<Rightarrow> nat \<Rightarrow> pyfloat" where
  "float_of_ratio negative n d =
     (if n = 0 then (if negative then NegZero else Finite 0 0)
      else case round_double n d of
             None \<Rightarrow> (if negative then NegInf else PosInf)
           | Some (m, e) \<Rightarrow>
               if m = 0 then (if negative then NegZero else Finite 0 0)
               else Finite (if negative then - int m else int m) e)"

text \<open>\<^verbatim>\<open>float(n)\<close> for an integer: too large a magnitude raises \<^verbatim>\<open>OverflowError\<close>.\<close>

definition float_of_int :: "int \<Rightarrow> error + pyfloat" where
  "float_of_int i =
     (case float_of_ratio (i < 0) (nat \<bar>i\<bar>) 1 of
        PosInf \<Rightarrow> Inl OverflowError
      | NegInf \<Rightarrow> Inl OverflowError
      | f \<Rightarrow> Inr f)"

text \<open>
  \<^verbatim>\<open>int(x)\<close> for a float truncates toward zero; NaN raises \<^verbatim>\<open>ValueError\<close> and an
  infinity raises \<^verbatim>\<open>OverflowError\<close>.
\<close>

definition int_of_float :: "pyfloat \<Rightarrow> error + int" where
  "int_of_float f =
     (case f of
        Finite m e \<Rightarrow>
          Inr (if 0 \<le> e then m * 2 ^ nat e
               else if 0 \<le> m then m div 2 ^ nat (- e)
               else - ((- m) div 2 ^ nat (- e)))
      | NegZero \<Rightarrow> Inr 0
      | NaN \<Rightarrow> Inl ValueError
      | PosInf \<Rightarrow> Inl OverflowError
      | NegInf \<Rightarrow> Inl OverflowError)"

text \<open>
  \<^verbatim>\<open>float(s)\<close> for a string.  White space around the text is dropped, which for
  \<^verbatim>\<open>float\<close> is the code points 9 to 13, 32, 133 and 160 (not 28 to 31); an underscore
  may stand only between two digits; then an optional sign is followed by \<^verbatim>\<open>inf\<close>,
  \<^verbatim>\<open>infinity\<close> or \<^verbatim>\<open>nan\<close> in any case, or by a decimal number with at least one digit
  in its mantissa and an optional exponent.  \<open>None\<close> is \<^verbatim>\<open>ValueError\<close>.
\<close>

definition is_float_space :: "char \<Rightarrow> bool" where
  "is_float_space c = (code_point c \<in> {9, 10, 11, 12, 13, 32, 133, 160})"

definition float_strip :: "string \<Rightarrow> string" where
  "float_strip s = rev (dropWhile is_float_space (rev (dropWhile is_float_space s)))"

fun underscores_ok :: "char \<Rightarrow> string \<Rightarrow> bool" where
  "underscores_ok prev [] = (prev \<noteq> CHR ''_'')"
| "underscores_ok prev (c # cs) =
     (if c = CHR ''_'' then is_digit prev \<and> underscores_ok c cs
      else if prev = CHR ''_'' then is_digit c \<and> underscores_ok c cs
      else underscores_ok c cs)"

definition nat_of_digits :: "string \<Rightarrow> nat" where
  "nat_of_digits ds = foldl (\<lambda>acc c. 10 * acc + digit_val c) 0 ds"

definition split_sign :: "string \<Rightarrow> bool \<times> string" where
  "split_sign s =
     (case s of
        [] \<Rightarrow> (False, [])
      | c # cs \<Rightarrow> if c = CHR ''-'' then (True, cs) else if c = CHR ''+'' then (False, cs) else (False, s))"

text \<open>The exponent part: empty, or \<^verbatim>\<open>e\<close>/\<^verbatim>\<open>E\<close>, an optional sign and at least one digit.\<close>

definition parse_exponent :: "string \<Rightarrow> int option" where
  "parse_exponent s =
     (case s of
        [] \<Rightarrow> Some 0
      | c # cs \<Rightarrow>
          if c = CHR ''e'' \<or> c = CHR ''E'' then
            (let (neg, ds) = split_sign cs
             in if ds \<noteq> [] \<and> list_all is_digit ds
                then Some (if neg then - int (nat_of_digits ds) else int (nat_of_digits ds))
                else None)
          else None)"

definition parse_decimal :: "bool \<Rightarrow> string \<Rightarrow> pyfloat option" where
  "parse_decimal negative s =
     (let ip = takeWhile is_digit s;
          r1 = dropWhile is_digit s;
          has_point = (r1 \<noteq> [] \<and> hd r1 = CHR ''.'');
          fp = (if has_point then takeWhile is_digit (tl r1) else []);
          r2 = (if has_point then dropWhile is_digit (tl r1) else r1)
      in if ip = [] \<and> fp = [] then None
         else case parse_exponent r2 of
                None \<Rightarrow> None
              | Some ex \<Rightarrow>
                  (let m = nat_of_digits (ip @ fp);
                       e10 = ex - int (length fp)
                   in Some (if 0 \<le> e10 then float_of_ratio negative (m * 10 ^ nat e10) 1
                            else float_of_ratio negative m (10 ^ nat (- e10)))))"

definition float_of_str :: "string \<Rightarrow> pyfloat option" where
  "float_of_str s =
     (let t = float_strip s
      in if \<not> underscores_ok (CHR 0x00) t then None
         else
           (let u = filter (\<lambda>c. c \<noteq> CHR ''_'') t;
                (negative, body) = split_sign u;
                w = lower body
            in if w = ''inf'' \<or> w = ''infinity'' then Some (if negative then NegInf else PosInf)
               else if w = ''nan'' then Some NaN
               else parse_decimal negative body))"

subsection \<open>Built-in conversions and tests\<close>

text \<open>
  \<^verbatim>\<open>str(value)\<close>.  The text of an integer is its decimal numeral of any length: the
  interpreter's optional limit on the number of digits of such a conversion is taken to
  be switched off.
\<close>

definition py_str :: "'dt pylib \<Rightarrow> 'dt pyval \<Rightarrow> string" where
  "py_str L v =
     (case v of
        PNone \<Rightarrow> ''None''
      | PBool b \<Rightarrow> (if b then ''True'' else ''False'')
      | PInt i \<Rightarrow> str_of_int i
      | PFloat f \<Rightarrow> float_repr L f
      | PStr s \<Rightarrow> s
      | PDatetime d \<Rightarrow> datetime_str L d)"

text \<open>Truth value of an object, as \<^verbatim>\<open>if value:\<close> tests it.\<close>

definition truthy :: "'dt pyval \<Rightarrow> bool" where
  "truthy v =
     (case v of
        PNone \<Rightarrow> False
      | PBool b \<Rightarrow> b
      | PInt i \<Rightarrow> i \<noteq> 0
      | PFloat f \<Rightarrow> f \<noteq> Finite 0 0 \<and> f \<noteq> NegZero
      | PStr s \<Rightarrow> s \<noteq> []
      | PDatetime d \<Rightarrow> True)"

text \<open>\<^verbatim>\<open>bool\<close> is a subclass of \<^verbatim>\<open>int\<close>.\<close>

definition isinstance_int :: "'dt pyval \<Rightarrow> bool" where
  "isinstance_int v = (case v of PInt i \<Rightarrow> True | PBool b \<Rightarrow> True | _ \<Rightarrow> False)"

definition isinstance_float :: "'dt pyval \<Rightarrow> bool" where
  "isinstance_float v = (case v of PFloat f \<Rightarrow> True | _ \<Rightarrow> False)"

definition isinstance_bool :: "'dt pyval \<Rightarrow> bool" where
  "isinstance_bool v = (case v of PBool b \<Rightarrow> True | _ \<Rightarrow> False)"

text \<open>\<^verbatim>\<open>float(value)\<close>.\<close>

definition py_float :: "'dt pyval \<Rightarrow> error + pyfloat" where
  "py_float v =
     (case v of
        PStr s \<Rightarrow> (case float_of_str s of None \<Rightarrow> Inl ValueError | Some f \<Rightarrow> Inr f)
      | PInt i \<Rightarrow> float_of_int i
      | PBool b \<Rightarrow> float_of_int (if b then 1 else 0)
      | PFloat f \<Rightarrow> Inr f
      | PNone \<Rightarrow> Inl TypeError
      | PDatetime d \<Rightarrow> Inl TypeError)"

text \<open>\<^verbatim>\<open>int(float(value))\<close>.\<close>

definition py_int_float :: "'dt pyval \<Rightarrow> error + int" where
  "py_int_float v = (case py_float v of Inl e \<Rightarrow> Inl e | Inr f \<Rightarrow> int_of_float f)"

text \<open>
  \<^verbatim>\<open>eval(s)\<close>: the two boolean literals are evaluated here, the empty text is a syntax
  error (\<open>None\<close> is any exception), every other expression is left to the library.
\<close>

definition py_eval :: "'dt pylib \<Rightarrow> string \<Rightarrow> 'dt pyval option" where
  "py_eval L s =
     (if s = ''True'' then Some (PBool True)
      else if s = ''False'' then Some (PBool False)
      else if s = [] then None
      else eval_expr L s)"

text \<open>\<^verbatim>\<open>except ValueError: raise CantParseValueToDataType\<close>; other exceptions pass.\<close>

definition reraise :: "error \<Rightarrow> error" where
  "reraise e = (if e = ValueError then CantParseValueToDataType else e)"

section \<open>Cell coercion and read-back\<close>

text \<open>
  \<^verbatim>\<open>CellValue.__validate_data_type__(self, value, data_type)\<close>.  The method assigns to
  \<^verbatim>\<open>self.value\<close> or raises; the model returns the new \<^verbatim>\<open>self.value\<close> (the old one
  where no assignment is made).  The branches and their order are the source's; the date
  branch is keyed on the text \<^verbatim>\<open>datetime\<close>.  In the boolean branch a title-cased text
  with a character beyond code point 255 is neither \<^verbatim>\<open>True\<close> nor \<^verbatim>\<open>False\<close>.
\<close>

definition validate_data_type ::
  "'dt pylib \<Rightarrow> 'dt pyval \<Rightarrow> 'dt pyval \<Rightarrow> string \<Rightarrow> error + 'dt pyval" where
  "validate_data_type L self_value val data_type =
     (if data_type = ''char'' \<or> data_type = ''textfield'' then Inr (PStr (py_str L val))
      else if data_type = ''int'' then
        (if \<not> isinstance_int val then
           (if truthy val then
              (case py_int_float val of
                 Inl e \<Rightarrow> Inl (reraise e)
               | Inr i \<Rightarrow> Inr (PInt i))
            else Inr (PStr []))
         else Inr self_value)
      else if data_type = ''float'' then
        (if \<not> isinstance_float val then
           (if truthy val then
              (case py_float val of
                 Inl e \<Rightarrow> Inl (reraise e)
               | Inr f \<Rightarrow> Inr (PFloat f))
            else Inr (PStr []))
         else Inr self_value)
      else if data_type = ''datetime'' then
        (if truthy val then
           (case val of
              PStr s \<Rightarrow>
                (case self_value of
                   PStr sv \<Rightarrow>
                     (case fromisoformat L (lower (strip sv)) of
                        Some d \<Rightarrow> Inr (PStr (isoformat L d))
                      | None \<Rightarrow> Inr (PStr []))
                 | _ \<Rightarrow> Inl AttributeError)
            | PDatetime d \<Rightarrow> Inr (PStr (isoformat L d))
            | _ \<Rightarrow> Inr (PStr []))
         else Inr (PStr []))
      else if data_type = ''bool'' then
        (if truthy val then
           (if \<not> isinstance_bool val then
              (case title (strip (py_str L val)) of
                 None \<Rightarrow> Inl CantParseValueToDataType
               | Some v \<Rightarrow>
                   if v = ''True'' \<or> v = ''False''
                   then (case py_eval L v of
                           Some b \<Rightarrow> Inr b
                         | None \<Rightarrow> Inl CantParseValueToDataType)
                   else Inl CantParseValueToDataType)
            else Inr self_value)
         else Inr (PStr []))
      else Inr self_value)"

text \<open>
  \<^verbatim>\<open>CellValue.get_value\<close> on the stored text of a cell and the declared type of its
  column.  A Python function that reaches its end returns \<^verbatim>\<open>None\<close>.
\<close>

definition get_value :: "'dt pylib \<Rightarrow> string \<Rightarrow> string \<Rightarrow> error + 'dt pyval" where
  "get_value L stored data_type =
     (if data_type = ''char'' \<or> data_type = ''textfield'' then Inr (PStr stored)
      else if data_type = ''int'' then
        (case py_int_float (PStr stored :: 'dt pyval) of
           Inr i \<Rightarrow> Inr (PInt i)
         | Inl e \<Rightarrow> if e = ValueError then Inr (PStr stored) else Inl e)
      else if data_type = ''float'' then
        (case py_float (PStr stored :: 'dt pyval) of
           Inr f \<Rightarrow> Inr (PFloat f)
         | Inl e \<Rightarrow> if e = ValueError then Inr (PStr stored) else Inl e)
      else if data_type = ''bool'' then
        (case py_eval L stored of
           Some v \<Rightarrow> Inr v
         | None \<Rightarrow> Inr (PStr stored))
      else if data_type = ''datetime'' then
        (case fromisoformat L stored of
           Some d \<Rightarrow> Inr (PDatetime d)
         | None \<Rightarrow> Inr (PStr stored))
      else Inr PNone)"

section \<open>The tables\<close>

text \<open>
  The four models are rows of the storage layer; the many-to-many fields are link
  tables of (owner id, member id).  A query returns objects in primary-key order,
  which is the order of creation.
\<close>

record TableColumn =
  col_id :: nat
  col_table :: nat
  column_name :: string
  column_data_type :: string

record TableRow =
  row_id :: nat
  row_table :: nat

record CellValue =
  cell_id :: nat
  cell_value :: string
  cell_table :: nat
  table_column :: nat
  table_row :: nat

record database =
  TableColumn_objects :: "TableColumn list"
  TableRow_objects :: "TableRow list"
  CellValue_objects :: "CellValue list"
  table_columns :: "(nat \<times> nat) list"
  table_rows :: "(nat \<times> nat) list"
  column_cells :: "(nat \<times> nat) list"
  row_cells :: "(nat \<times> nat) list"

definition empty_db :: database where
  "empty_db =
     \<lparr>TableColumn_objects = [], TableRow_objects = [], CellValue_objects = [],
      table_columns = [], table_rows = [], column_cells = [], row_cells = []\<rparr>"

definition next_id :: "nat list \<Rightarrow> nat" where
  "next_id ids = Suc (foldr max ids 0)"

text \<open>\<^verbatim>\<open>owner.field.add(*members)\<close>: a member already linked is not linked twice.\<close>

definition m2m_add :: "(nat \<times> nat) list \<Rightarrow> nat \<Rightarrow> nat list \<Rightarrow> (nat \<times> nat) list" where
  "m2m_add links owner members =
     foldl (\<lambda>l i. if (owner, i) \<in> set l then l else l @ [(owner, i)]) links members"

definition table_columns_all :: "database \<Rightarrow> nat \<Rightarrow> TableColumn list" where
  "table_columns_all db self =
     filter (\<lambda>c. (self, col_id c) \<in> set (table_columns db)) (TableColumn_objects db)"

definition table_rows_all :: "database \<Rightarrow> nat \<Rightarrow> TableRow list" where
  "table_rows_all db self =
     filter (\<lambda>r. (self, row_id r) \<in> set (table_rows db)) (TableRow_objects db)"

definition column_cells_all :: "database \<Rightarrow> nat \<Rightarrow> CellValue list" where
  "column_cells_all db col =
     filter (\<lambda>c. (col, cell_id c) \<in> set (column_cells db)) (CellValue_objects db)"

definition row_cells_all :: "database \<Rightarrow> nat \<Rightarrow> CellValue list" where
  "row_cells_all db row =
     filter (\<lambda>c. (row, cell_id c) \<in> set (row_cells db)) (CellValue_objects db)"

subsection \<open>Counting\<close>

definition total_table_rows :: "database \<Rightarrow> nat \<Rightarrow> nat" where
  "total_table_rows db self =
     (case table_columns_all db self of
        field # _ \<Rightarrow> length (table_columns_all db self)
      | [] \<Rightarrow> 0)"

definition total_table_columns :: "database \<Rightarrow> nat \<Rightarrow> nat" where
  "total_table_columns db self = length (table_columns_all db self)"

definition table_info :: "database \<Rightarrow> nat \<Rightarrow> (string \<rightharpoonup> nat)" where
  "table_info db self =
     [''rows'' \<mapsto> total_table_rows db self, ''columns'' \<mapsto> total_table_columns db self]"

definition is_empty :: "database \<Rightarrow> nat \<Rightarrow> bool" where
  "is_empty db self =
     (let info = table_info db self; rows = the (info ''rows''); columns = the (info ''columns'')
      in if columns = 0 \<or> rows = 0 then True else False)"

subsection \<open>Columns\<close>

text \<open>
  An argument that the code tests with \<^verbatim>\<open>isinstance\<close>: a string, a list, tuple or set
  (whose elements are strings), or a value that is neither.
\<close>

datatype pyarg = Str string | Seq "string list" | Obj

text \<open>\<^verbatim>\<open>self.table_columns.get(column_name=...)\<close> inside \<^verbatim>\<open>is_column\<close>.\<close>

definition is_column :: "database \<Rightarrow> nat \<Rightarrow> string \<Rightarrow> error + bool" where
  "is_column db self name =
     (case filter (\<lambda>c. column_name c = name) (table_columns_all db self) of
        [] \<Rightarrow> Inr False
      | [c] \<Rightarrow> Inr True
      | _ \<Rightarrow> Inl MultipleObjectsReturned)"

definition get_supported_data_types :: "string list" where
  "get_supported_data_types = [''char'', ''int'', ''float'', ''bool'', ''textfield'', ''date'']"

definition data_type_is_supported :: "string \<Rightarrow> bool" where
  "data_type_is_supported data_type = (strip (lower data_type) \<in> set get_supported_data_types)"

definition data_types_are_supported :: "string list \<Rightarrow> bool list" where
  "data_types_are_supported data_types =
     map (\<lambda>t. strip (lower t) \<in> set get_supported_data_types) data_types"

text \<open>
  Saving a new column: \<^verbatim>\<open>column_name\<close> is declared unique over all columns of all
  tables, and the storage layer refuses a second one with \<^verbatim>\<open>IntegrityError\<close>.  A
  column is saved without \<^verbatim>\<open>full_clean\<close>, so neither the declared choices nor the
  declared maximum lengths of its fields are checked by the framework; the storage layer
  is one that does not enforce the lengths either.
\<close>

definition TableColumn_create ::
  "database \<Rightarrow> nat \<Rightarrow> string \<Rightarrow> string \<Rightarrow> (error + TableColumn) \<times> database" where
  "TableColumn_create db self name data_type =
     (if name \<in> set (map column_name (TableColumn_objects db)) then (Inl IntegrityError, db)
      else
        (let c = \<lparr>col_id = next_id (map col_id (TableColumn_objects db)), col_table = self,
                  column_name = name, column_data_type = data_type\<rparr>
         in (Inr c, db\<lparr>TableColumn_objects := TableColumn_objects db @ [c]\<rparr>)))"

definition add_column ::
  "database \<Rightarrow> nat \<Rightarrow> pyarg \<Rightarrow> pyarg \<Rightarrow> (error + TableColumn) \<times> database" where
  "add_column db self column_name_arg data_type_arg =
     (case (column_name_arg, data_type_arg) of
        (Str name, Str data_type) \<Rightarrow>
          if \<not> data_type_is_supported data_type then (Inl UnSupportedDataType, db)
          else
            (case is_column db self name of
               Inl e \<Rightarrow> (Inl e, db)
             | Inr True \<Rightarrow> (Inl DuplicateColumnInTable, db)
             | Inr False \<Rightarrow>
                 (case TableColumn_create db self name data_type of
                    (Inl e, db') \<Rightarrow> (Inl e, db')
                  | (Inr c, db') \<Rightarrow>
                      (Inr c, db'\<lparr>table_columns := m2m_add (table_columns db') self [col_id c]\<rparr>)))
      | _ \<Rightarrow> (Inl DynamicTableError, db))"

text \<open>The list comprehension of \<^verbatim>\<open>bulk_add_columns\<close> that creates the columns in input order.\<close>

fun create_columns ::
  "database \<Rightarrow> nat \<Rightarrow> (string \<times> string) list \<Rightarrow> (error + TableColumn list) \<times> database" where
  "create_columns db self [] = (Inr [], db)"
| "create_columns db self ((name, data_type) # rest) =
     (case TableColumn_create db self name data_type of
        (Inl e, db') \<Rightarrow> (Inl e, db')
      | (Inr c, db') \<Rightarrow>
          (case create_columns db' self rest of
             (Inl e, db'') \<Rightarrow> (Inl e, db'')
           | (Inr cs, db'') \<Rightarrow> (Inr (c # cs), db'')))"

text \<open>The list comprehension \<^verbatim>\<open>[self.is_column(column) for column in column_names]\<close>.\<close>

fun are_columns :: "database \<Rightarrow> nat \<Rightarrow> string list \<Rightarrow> error + bool list" where
  "are_columns db self [] = Inr []"
| "are_columns db self (name # names) =
     (case is_column db self name of
        Inl e \<Rightarrow> Inl e
      | Inr b \<Rightarrow> (case are_columns db self names of Inl e \<Rightarrow> Inl e | Inr bs \<Rightarrow> Inr (b # bs)))"

definition bulk_add_columns ::
  "database \<Rightarrow> nat \<Rightarrow> pyarg \<Rightarrow> pyarg \<Rightarrow> (error + TableColumn list) \<times> database" where
  "bulk_add_columns db self column_names_arg data_types_arg =
     (case (column_names_arg, data_types_arg) of
        (Seq column_names, Seq data_types) \<Rightarrow>
          if length column_names \<noteq> length data_types then (Inl DynamicTableError, db)
          else if False \<in> set (data_types_are_supported data_types) then (Inl UnSupportedDataType, db)
          else if length column_names \<noteq> card (set column_names) then (Inl DuplicateColumnInTable, db)
          else
            (case are_columns db self column_names of
               Inl e \<Rightarrow> (Inl e, db)
             | Inr is_col \<Rightarrow>
                 if True \<in> set is_col then (Inl DuplicateColumnInTable, db)
                 else
                   (case create_columns db self (zip column_names data_types) of
                      (Inl e, db') \<Rightarrow> (Inl e, db')
                    | (Inr columns, db') \<Rightarrow>
                        (Inr columns,
                         db'\<lparr>table_columns := m2m_add (table_columns db') self (map col_id columns)\<rparr>)))
      | _ \<Rightarrow> (Inl DynamicTableError, db))"

subsection \<open>Rows\<close>

text \<open>
  \<^verbatim>\<open>CellValue.save\<close> starts with \<^verbatim>\<open>self.full_clean()\<close>.  That method of the framework
  first cleans the fields: the \<^verbatim>\<open>value\<close> field is a text field declared with
  \<^verbatim>\<open>blank=True\<close>, so an empty value (\<^verbatim>\<open>None\<close> or the empty text; no other value of
  the model is equal to one of the field's empty values) is left as it is, and any other
  value is replaced by the field's \<^verbatim>\<open>to_python\<close> of it, the value itself for a text and
  \<^verbatim>\<open>str(value)\<close> otherwise.
\<close>

definition clean_fields :: "'dt pylib \<Rightarrow> 'dt pyval \<Rightarrow> 'dt pyval" where
  "clean_fields L raw_value =
     (if raw_value = PNone \<or> raw_value = PStr [] then raw_value
      else PStr (py_str L raw_value))"

text \<open>
  Then \<^verbatim>\<open>full_clean\<close> calls \<^verbatim>\<open>CellValue.clean\<close>, which hands the cleaned
  \<^verbatim>\<open>self.value\<close> and the column's declared type to \<^verbatim>\<open>__validate_data_type__\<close>.  The
  result is the new \<^verbatim>\<open>self.value\<close>.
\<close>

definition full_clean :: "'dt pylib \<Rightarrow> 'dt pyval \<Rightarrow> string \<Rightarrow> error + 'dt pyval" where
  "full_clean L self_value data_type =
     (let cleaned = clean_fields L self_value
      in validate_data_type L cleaned cleaned data_type)"

text \<open>
  After \<^verbatim>\<open>full_clean\<close> the object is inserted.  The text field writes the string form
  of \<^verbatim>\<open>self.value\<close>; its column does not admit \<^verbatim>\<open>NULL\<close>, so a \<^verbatim>\<open>self.value\<close> that is
  still \<^verbatim>\<open>None\<close> is refused by the storage layer with \<^verbatim>\<open>IntegrityError\<close>.
  \<open>saved_value\<close> is the text that \<^verbatim>\<open>save\<close> writes for a value and a declared type, or
  the exception that \<^verbatim>\<open>save\<close> raises.
\<close>

definition saved_value :: "'dt pylib \<Rightarrow> 'dt pyval \<Rightarrow> string \<Rightarrow> error + string" where
  "saved_value L self_value data_type =
     (case full_clean L self_value data_type of
        Inl e \<Rightarrow> Inl e
      | Inr v \<Rightarrow> if v = PNone then Inl IntegrityError else Inr (py_str L v))"

text \<open>
  \<^verbatim>\<open>CellValue.objects.create(value=..., table=..., table_column=..., table_row=...)\<close>
  builds the object and saves it; the record is the row that is written.
\<close>

definition CellValue_create ::
  "'dt pylib \<Rightarrow> database \<Rightarrow> 'dt pyval \<Rightarrow> nat \<Rightarrow> TableColumn \<Rightarrow> nat \<Rightarrow> (error + CellValue) \<times> database" where
  "CellValue_create L db val self col row =
     (case saved_value L val (column_data_type col) of
        Inl e \<Rightarrow> (Inl e, db)
      | Inr stored \<Rightarrow>
          (let cell = \<lparr>cell_id = next_id (map cell_id (CellValue_objects db)),
                       cell_value = stored, cell_table = self,
                       table_column = col_id col, table_row = row\<rparr>
           in (Inr cell, db\<lparr>CellValue_objects := CellValue_objects db @ [cell]\<rparr>)))"

text \<open>The argument of \<^verbatim>\<open>add_row\<close>: a dict keyed by strings, or something else.\<close>

datatype 'dt rowarg = Dict "string \<rightharpoonup> 'dt pyval" | NotDict

text \<open>\<^verbatim>\<open>value.get(key, "")\<close>.\<close>

definition dict_get :: "(string \<rightharpoonup> 'dt pyval) \<Rightarrow> string \<Rightarrow> 'dt pyval" where
  "dict_get d key = (case d key of Some v \<Rightarrow> v | None \<Rightarrow> PStr [])"

text \<open>
  The loop of \<^verbatim>\<open>add_row\<close> over the table's columns; \<open>row\<close> is the list of cells made so
  far.  A raise leaves the loop with the cells already written.
\<close>

fun add_row_cells ::
  "'dt pylib \<Rightarrow> database \<Rightarrow> nat \<Rightarrow> nat \<Rightarrow> (string \<rightharpoonup> 'dt pyval) \<Rightarrow> TableColumn list \<Rightarrow>
     CellValue list \<Rightarrow> (error + CellValue list) \<times> database" where
  "add_row_cells L db self rid d [] row = (Inr row, db)"
| "add_row_cells L db self rid d (col # cols) row =
     (case CellValue_create L db (dict_get d (column_name col)) self col rid of
        (Inl e, db') \<Rightarrow> (Inl e, db')
      | (Inr cell, db') \<Rightarrow>
          add_row_cells L
            (db'\<lparr>column_cells := m2m_add (column_cells db') (col_id col) [cell_id cell]\<rparr>)
            self rid d cols (row @ [cell]))"

definition add_row ::
  "'dt pylib \<Rightarrow> database \<Rightarrow> nat \<Rightarrow> 'dt rowarg \<Rightarrow> (error + TableRow) \<times> database" where
  "add_row L db self arg =
     (case arg of
        NotDict \<Rightarrow> (Inl ValueError, db)
      | Dict d \<Rightarrow>
          if total_table_columns db self = 0 then (Inl TableHaveNoColumn, db)
          else
            (let table_row_new =
                   \<lparr>row_id = next_id (map row_id (TableRow_objects db)), row_table = self\<rparr>;
                 db1 = db\<lparr>TableRow_objects := TableRow_objects db @ [table_row_new]\<rparr>
             in case add_row_cells L db1 self (row_id table_row_new) d
                       (table_columns_all db1 self) [] of
                  (Inl e, db2) \<Rightarrow> (Inl e, db2)
                | (Inr row, db2) \<Rightarrow>
                    (Inr table_row_new,
                     db2\<lparr>row_cells :=
                           m2m_add (row_cells db2) (row_id table_row_new) (map cell_id row),
                         table_rows := m2m_add (table_rows db2) self [row_id table_row_new]\<rparr>)))"

text \<open>The argument of \<^verbatim>\<open>bulk_add_rows\<close>: a sequence, or something else.\<close>

datatype 'dt rowsarg = Rows "'dt rowarg list" | NotRows

fun bulk_add_rows_loop ::
  "'dt pylib \<Rightarrow> database \<Rightarrow> nat \<Rightarrow> 'dt rowarg list \<Rightarrow> TableRow list \<Rightarrow>
     (error + TableRow list) \<times> database" where
  "bulk_add_rows_loop L db self [] rows = (Inr rows, db)"
| "bulk_add_rows_loop L db self (r # rs) rows =
     (case r of
        NotDict \<Rightarrow> (Inl ValueError, db)
      | Dict d \<Rightarrow>
          if total_table_columns db self = 0 then (Inl TableHaveNoColumn, db)
          else
            (case add_row L db self r of
               (Inl e, db') \<Rightarrow> (Inl e, db')
             | (Inr table_row_new, db') \<Rightarrow>
                 bulk_add_rows_loop L db' self rs (rows @ [table_row_new])))"

definition bulk_add_rows ::
  "'dt pylib \<Rightarrow> database \<Rightarrow> nat \<Rightarrow> 'dt rowsarg \<Rightarrow> (error + TableRow list) \<times> database" where
  "bulk_add_rows L db self arg =
     (case arg of
        NotRows \<Rightarrow> (Inl ValueError, db)
      | Rows vals \<Rightarrow> bulk_add_rows_loop L db self vals [])"

subsection \<open>Reads\<close>

definition get_column_cells :: "database \<Rightarrow> nat \<Rightarrow> string \<Rightarrow> error + CellValue list" where
  "get_column_cells db self name =
     (case is_column db self name of
        Inl e \<Rightarrow> Inl e
      | Inr False \<Rightarrow> Inl ColumnNotInTable
      | Inr True \<Rightarrow>
          (case filter (\<lambda>c. col_table c = self \<and> column_name c = name) (TableColumn_objects db) of
             [] \<Rightarrow> Inl DoesNotExist
           | [c] \<Rightarrow> Inr (column_cells_all db (col_id c))
           | _ \<Rightarrow> Inl MultipleObjectsReturned))"

text \<open>\<^verbatim>\<open>get_row_cells\<close> and \<^verbatim>\<open>get_cell\<close>, with the row index already an integer.\<close>

definition get_row_cells :: "database \<Rightarrow> nat \<Rightarrow> nat \<Rightarrow> error + CellValue list" where
  "get_row_cells db self row_index =
     (case filter (\<lambda>r. row_table r = self \<and> row_id r = row_index) (TableRow_objects db) of
        [] \<Rightarrow> Inl RowNotInTable
      | [r] \<Rightarrow> Inr (row_cells_all db (row_id r))
      | _ \<Rightarrow> Inl MultipleObjectsReturned)"

definition get_cell :: "database \<Rightarrow> nat \<Rightarrow> string \<Rightarrow> nat \<Rightarrow> error + CellValue" where
  "get_cell db self name row_index =
     (case is_column db self name of
        Inl e \<Rightarrow> Inl e
      | Inr False \<Rightarrow> Inl ColumnNotInTable
      | Inr True \<Rightarrow>
          (case filter
                  (\<lambda>c. cell_table c = self \<and> table_row c = row_index \<and>
                       table_column c \<in>
                         set (map col_id
                                (filter (\<lambda>k. column_name k = name) (TableColumn_objects db))))
                  (CellValue_objects db) of
             [] \<Rightarrow> Inl CellDoesNotExist
           | [c] \<Rightarrow> Inr c
           | _ \<Rightarrow> Inl MultipleObjectsReturned))"

section \<open>Example tables\<close>

text \<open>
  A library instance for the concrete examples below; none of them reaches one of its
  functions.
\<close>

definition example_lib :: "unit pylib" where
  "example_lib =
     \<lparr>float_repr = (\<lambda>f. []), fromisoformat = (\<lambda>s. None), isoformat = (\<lambda>d. []),
      datetime_str = (\<lambda>d. []), eval_expr = (\<lambda>s. None)\<rparr>"

text \<open>Table 1 with the column \<^verbatim>\<open>Name: char\<close>, then also \<^verbatim>\<open>Age: int\<close>.\<close>

definition names_db :: database where
  "names_db = snd (add_column empty_db 1 (Str ''Name'') (Str ''char''))"

definition people_db :: database where
  "people_db = snd (add_column names_db 1 (Str ''Age'') (Str ''int''))"

text \<open>Table 1 with the single column \<^verbatim>\<open>When: date\<close>.\<close>

definition events_db :: database where
  "events_db = snd (add_column empty_db 1 (Str ''When'') (Str ''date''))"

text \<open>Table 1 with the single column \<^verbatim>\<open>Married: bool\<close>.\<close>

definition married_db :: database where
  "married_db = snd (add_column empty_db 1 (Str ''Married'') (Str ''bool''))"

text \<open>The two columns of the table of people, as they are stored.\<close>

definition name_column :: TableColumn where
  "name_column = \<lparr>col_id = 1, col_table = 1, column_name = ''Name'', column_data_type = ''char''\<rparr>"

definition age_column :: TableColumn where
  "age_column = \<lparr>col_id = 2, col_table = 1, column_name = ''Age'', column_data_type = ''int''\<rparr>"


definition sam_bad_row :: "string \<rightharpoonup> unit pyval" where
  "sam_bad_row = [''Name'' \<mapsto> PStr ''Sam'', ''Age'' \<mapsto> PStr ''3o'']"

definition unmarried_row :: "string \<rightharpoonup> unit pyval" where
  "unmarried_row = [''Married'' \<mapsto> PBool False]"

definition zero_row :: "string \<rightharpoonup> unit pyval" where
  "zero_row = [''Married'' \<mapsto> PInt 0]"

section \<open>Properties\<close>

subsection \<open>Creating a cell\<close>

lemma CellValue_create_ok:
  assumes "saved_value L v (column_data_type col) = Inr stored"
  shows "CellValue_create L db v self col rid =
    (Inr \<lparr>cell_id = next_id (map cell_id (CellValue_objects db)), cell_value = stored,
           cell_table = self, table_column = col_id col, table_row = rid\<rparr>,
     db\<lparr>CellValue_objects := CellValue_objects db @
        [\<lparr>cell_id = next_id (map cell_id (CellValue_objects db)), cell_value = stored,
           cell_table = self, table_column = col_id col, table_row = rid\<rparr>]\<rparr>)"
  using assms by (simp add: CellValue_create_def Let_def)

lemma CellValue_create_fail:
  assumes "saved_value L v (column_data_type col) = Inl e"
  shows "CellValue_create L db v self col rid = (Inl e, db)"
  using assms by (simp add: CellValue_create_def)

subsection \<open>Table information\<close>

text \<open>
  Claim C1 says that \<^verbatim>\<open>table_info\<close> reports the number of rows of the table under
  \<^verbatim>\<open>rows\<close> and the number of columns under \<^verbatim>\<open>columns\<close>.  The code computes both
  entries from the columns: \<^verbatim>\<open>__total_table_rows\<close> counts \<^verbatim>\<open>self.table_columns\<close>.  A
  table with one column and no row reports one row.
\<close>

theorem table_info_rows_counts_columns:
  "table_info db self ''rows'' = Some (length (table_columns_all db self)) \<and>
   table_info db self ''columns'' = Some (length (table_columns_all db self)) \<and>
   table_info names_db 1 ''rows'' = Some 1 \<and>
   table_rows_all names_db 1 = []"
proof -
  have general: "table_info db self ''rows'' = Some (length (table_columns_all db self))"
    by (simp add: table_info_def total_table_rows_def split: list.splits)
  have columns: "table_info db self ''columns'' = Some (length (table_columns_all db self))"
    by (simp add: table_info_def total_table_columns_def)
  have one: "table_info names_db 1 ''rows'' = Some 1"
    by code_simp
  have none: "table_rows_all names_db 1 = []"
    by code_simp
  from general columns one none show ?thesis by blast
qed

subsection \<open>The date type\<close>

text \<open>
  Claim C3 says that a cell under a column of declared type \<^verbatim>\<open>date\<close> stores a parsed
  ISO-8601 text re-serialised and an unparseable text as the empty string.  The
  supported type is spelled \<^verbatim>\<open>date\<close>, the coercion branch tests for \<^verbatim>\<open>datetime\<close>:
  under a \<^verbatim>\<open>date\<close> column no branch is taken and every value is kept as it came, so
  the text \<^verbatim>\<open>not a date\<close> is stored as it is.
\<close>

theorem date_column_keeps_input:
  "data_type_is_supported ''date'' \<and>
   validate_data_type L v v ''date'' = Inr v \<and>
   fst (add_row example_lib events_db 1 (Dict [''When'' \<mapsto> PStr ''not a date''])) =
     Inr \<lparr>row_id = 1, row_table = 1\<rparr> \<and>
   map cell_value
     (CellValue_objects
       (snd (add_row example_lib events_db 1 (Dict [''When'' \<mapsto> PStr ''not a date''])))) =
     [''not a date'']"
proof -
  have supported: "data_type_is_supported ''date''"
    by code_simp
  have kept: "validate_data_type L v v ''date'' = Inr v"
    by (simp add: validate_data_type_def)
  have row: "fst (add_row example_lib events_db 1 (Dict [''When'' \<mapsto> PStr ''not a date''])) =
      Inr \<lparr>row_id = 1, row_table = 1\<rparr>"
    by code_simp
  have cells: "map cell_value
      (CellValue_objects
        (snd (add_row example_lib events_db 1 (Dict [''When'' \<mapsto> PStr ''not a date''])))) =
      [''not a date'']"
    by code_simp
  from supported kept row cells show ?thesis by blast
qed

text \<open>
  Claim C4 says that \<^verbatim>\<open>get_value\<close> never raises and returns the raw stored text, never
  \<^verbatim>\<open>None\<close>, when the text does not parse.  The read-back branch for dates tests for
  \<^verbatim>\<open>datetime\<close> as well, so for a cell of a \<^verbatim>\<open>date\<close> column the method reaches its end
  and returns \<^verbatim>\<open>None\<close>, whatever is stored.
\<close>

theorem get_value_date_is_none:
  "get_value L stored ''date'' = Inr PNone \<and>
   get_value example_lib ''2024-01-01T10:30:00'' ''date'' = Inr PNone"
  by (simp add: get_value_def)

text \<open>
  Claim C5 says that coercing a valid literal and decoding the stored form gives the
  literal back, for every supported type.  For the type \<^verbatim>\<open>date\<close> the ISO text
  \<^verbatim>\<open>2024-01-01T10:30:00\<close> is stored unchanged and decoded to \<^verbatim>\<open>None\<close>.  For the type
  \<^verbatim>\<open>bool\<close> the coercion method, when it is handed the boolean \<^verbatim>\<open>False\<close> itself, sets
  the empty text, which is decoded to the empty text; a cell created through \<^verbatim>\<open>save\<close>
  receives the text \<^verbatim>\<open>False\<close> instead.
\<close>

theorem round_trip_fails_for_date:
  "validate_data_type L (PStr ''2024-01-01T10:30:00'') (PStr ''2024-01-01T10:30:00'') ''date'' =
     Inr (PStr ''2024-01-01T10:30:00'') \<and>
   get_value L (py_str L (PStr ''2024-01-01T10:30:00'')) ''date'' = Inr PNone \<and>
   validate_data_type L (PBool False) (PBool False) ''bool'' = Inr (PStr []) \<and>
   get_value L (py_str L (PStr [])) ''bool'' = Inr (PStr [])"
  by (simp add: validate_data_type_def get_value_def py_str_def truthy_def py_eval_def)

subsection \<open>Adding rows to a table without columns\<close>

text \<open>
  Claim C7 says that \<^verbatim>\<open>bulk_add_rows\<close> on a table without columns raises
  \<^verbatim>\<open>TableHaveNoColumn\<close> for every sequence, the empty one included, before any element
  is looked at.  The check stands inside the loop, after the test that the element is a
  dict: the empty sequence returns the empty list, and a sequence that starts with
  something else than a dict raises \<^verbatim>\<open>ValueError\<close>.
\<close>

theorem bulk_add_rows_empty_sequence_counterexample: "total_table_columns empty_db 1 = 0 \<and>
   bulk_add_rows example_lib empty_db 1 (Rows []) = (Inr [], empty_db) \<and>
   bulk_add_rows example_lib empty_db 1 (Rows [NotDict, Dict Map.empty]) = (Inl ValueError, empty_db)"
  by (simp add: bulk_add_rows_def total_table_columns_def table_columns_all_def empty_db_def)

text \<open>
  Claim C7 as the code has it: on a table without columns the outcome is decided by the
  first element alone.  No element gives the empty list, a first element that is not a
  dict gives \<^verbatim>\<open>ValueError\<close>, a dict gives \<^verbatim>\<open>TableHaveNoColumn\<close>; in each case the
  storage is left as it was, so no row is created.
\<close>

theorem bulk_add_rows_no_columns:
  assumes "total_table_columns db self = 0"
  shows "bulk_add_rows L db self (Rows vals) =
     (case vals of
        [] \<Rightarrow> (Inr [], db)
      | NotDict # rest \<Rightarrow> (Inl ValueError, db)
      | Dict d # rest \<Rightarrow> (Inl TableHaveNoColumn, db))"
  using assms by (simp add: bulk_add_rows_def split: list.splits rowarg.splits)

theorem bulk_add_rows_no_columns_witness:
  "total_table_columns empty_db 1 = 0 \<and>
   bulk_add_rows example_lib empty_db 1 (Rows [Dict Map.empty, NotDict]) =
     (Inl TableHaveNoColumn, empty_db)"
proof -
  have h: "total_table_columns empty_db 1 = 0"
    by (simp add: total_table_columns_def table_columns_all_def empty_db_def)
  show ?thesis
    using h bulk_add_rows_no_columns [OF h, of example_lib "[Dict Map.empty, NotDict]"] by simp
qed

subsection \<open>Falsy input under a boolean column\<close>

lemma title_True: "title (strip ''True'') = Some ''True''"
  by code_simp

lemma title_False: "title (strip ''False'') = Some ''False''"
  by code_simp

lemma title_0: "title (strip (str_of_int 0)) = Some ''0''"
  by code_simp

lemma saved_value_bool:
  "saved_value L v ''bool'' =
     (if v = PNone \<or> py_str L v = [] then Inr []
      else if title (strip (py_str L v)) = Some ''True'' then Inr ''True''
      else if title (strip (py_str L v)) = Some ''False'' then Inr ''False''
      else Inl CantParseValueToDataType)"
  by (cases v)
    (auto simp: saved_value_def full_clean_def clean_fields_def validate_data_type_def
      py_str_def truthy_def isinstance_bool_def py_eval_def split: option.splits)

lemma falsy_bool: "\<not> truthy v \<Longrightarrow> validate_data_type L sv v ''bool'' = Inr (PStr [])"
  by (simp add: validate_data_type_def)

text \<open>
  Claim C9 says that under a column of declared type \<^verbatim>\<open>bool\<close> every falsy input, among
  them \<^verbatim>\<open>False\<close> and \<^verbatim>\<open>0\<close>, is stored as the empty string, exactly as a value that
  was never supplied.  A cell is created through \<^verbatim>\<open>save\<close>, whose \<^verbatim>\<open>full_clean\<close> turns
  every value other than \<^verbatim>\<open>None\<close> and the empty text into its text before the coercion
  sees it: \<^verbatim>\<open>False\<close> arrives as the text \<^verbatim>\<open>False\<close>, is stored as \<^verbatim>\<open>False\<close> and reads
  back as the boolean, while a missing value is stored as the empty text; \<^verbatim>\<open>0\<close> arrives
  as the text \<^verbatim>\<open>0\<close> and is refused.
\<close>

theorem bool_false_is_stored_counterexample:
  "map cell_value (CellValue_objects (snd (add_row example_lib married_db 1 (Dict unmarried_row)))) =
     [''False''] \<and>
   get_value example_lib ''False'' ''bool'' = Inr (PBool False) \<and>
   map cell_value (CellValue_objects (snd (add_row example_lib married_db 1 (Dict Map.empty)))) =
     [[]] \<and>
   add_row example_lib married_db 1 (Dict zero_row) =
     (Inl CantParseValueToDataType,
      married_db\<lparr>TableRow_objects := [\<lparr>row_id = 1, row_table = 1\<rparr>]\<rparr>)"
proof -
  have stored: "map cell_value
      (CellValue_objects (snd (add_row example_lib married_db 1 (Dict unmarried_row)))) = [''False'']"
    by code_simp
  have decoded: "get_value example_lib ''False'' ''bool'' = Inr (PBool False)"
    by code_simp
  have missing: "map cell_value
      (CellValue_objects (snd (add_row example_lib married_db 1 (Dict Map.empty)))) = [[]]"
    by code_simp
  have zero: "add_row example_lib married_db 1 (Dict zero_row) =
     (Inl CantParseValueToDataType,
      married_db\<lparr>TableRow_objects := [\<lparr>row_id = 1, row_table = 1\<rparr>]\<rparr>)"
    by code_simp
  show ?thesis
    by (rule conjI [OF stored conjI [OF decoded conjI [OF missing zero]]])
qed

text \<open>
  Claim C9 as the code has it.  Under a column of declared type \<^verbatim>\<open>bool\<close> only
  \<^verbatim>\<open>None\<close> and a value whose text is empty are stored as the empty text.  Every other
  value reaches the comparison as its text, trimmed and title-cased: it is stored as
  \<^verbatim>\<open>True\<close> or as \<^verbatim>\<open>False\<close> when that text is one of the two, and otherwise the
  creation raises \<^verbatim>\<open>CantParseValueToDataType\<close> and stores nothing.  So \<^verbatim>\<open>False\<close> is
  stored as \<^verbatim>\<open>False\<close>, \<^verbatim>\<open>True\<close> as \<^verbatim>\<open>True\<close>, and \<^verbatim>\<open>0\<close> is refused.  The method
  \<^verbatim>\<open>__validate_data_type__\<close> by itself sets the empty text for every falsy value it is
  handed.
\<close>

theorem bool_cell_storage:
  assumes bool: "column_data_type col = ''bool''"
  shows "CellValue_create L db v self col row =
      (let store = (\<lambda>stored.
             (Inr \<lparr>cell_id = next_id (map cell_id (CellValue_objects db)), cell_value = stored,
                    cell_table = self, table_column = col_id col, table_row = row\<rparr>,
              db\<lparr>CellValue_objects := CellValue_objects db @
                [\<lparr>cell_id = next_id (map cell_id (CellValue_objects db)), cell_value = stored,
                   cell_table = self, table_column = col_id col, table_row = row\<rparr>]\<rparr>))
       in if v = PNone \<or> py_str L v = [] then store []
          else if title (strip (py_str L v)) = Some ''True'' then store ''True''
          else if title (strip (py_str L v)) = Some ''False'' then store ''False''
          else (Inl CantParseValueToDataType, db)) \<and>
    saved_value L (PBool False) ''bool'' = Inr ''False'' \<and>
    saved_value L (PBool True) ''bool'' = Inr ''True'' \<and>
    saved_value L (PInt 0) ''bool'' = Inl CantParseValueToDataType \<and>
    saved_value L PNone ''bool'' = Inr [] \<and>
    saved_value L (PStr []) ''bool'' = Inr [] \<and>
    (\<not> truthy v \<longrightarrow> validate_data_type L sv v ''bool'' = Inr (PStr []))"
proof -
  have create: "CellValue_create L db v self col row =
      (let store = (\<lambda>stored.
             (Inr \<lparr>cell_id = next_id (map cell_id (CellValue_objects db)), cell_value = stored,
                    cell_table = self, table_column = col_id col, table_row = row\<rparr>,
              db\<lparr>CellValue_objects := CellValue_objects db @
                [\<lparr>cell_id = next_id (map cell_id (CellValue_objects db)), cell_value = stored,
                   cell_table = self, table_column = col_id col, table_row = row\<rparr>]\<rparr>))
       in if v = PNone \<or> py_str L v = [] then store []
          else if title (strip (py_str L v)) = Some ''True'' then store ''True''
          else if title (strip (py_str L v)) = Some ''False'' then store ''False''
          else (Inl CantParseValueToDataType, db))"
    by (simp add: CellValue_create_def bool saved_value_bool Let_def)
  have f: "saved_value L (PBool False) ''bool'' = Inr ''False''"
    by (simp add: saved_value_bool py_str_def title_False)
  have t: "saved_value L (PBool True) ''bool'' = Inr ''True''"
    by (simp add: saved_value_bool py_str_def title_True)
  have z: "saved_value L (PInt 0) ''bool'' = Inl CantParseValueToDataType"
    using title_0 by (simp add: saved_value_bool py_str_def str_of_int_def)
  have n: "saved_value L PNone ''bool'' = Inr []"
    by (simp add: saved_value_bool)
  have e: "saved_value L (PStr []) ''bool'' = Inr []"
    by (simp add: saved_value_bool py_str_def)
  have m: "\<not> truthy v \<longrightarrow> validate_data_type L sv v ''bool'' = Inr (PStr [])"
    by (simp add: falsy_bool)
  show ?thesis
    by (rule conjI [OF create conjI [OF f conjI [OF t conjI [OF z conjI [OF n conjI [OF e m]]]]]])
qed

theorem bool_cell_storage_witness:
  "column_data_type
     \<lparr>col_id = 1, col_table = 1, column_name = ''Married'', column_data_type = ''bool''\<rparr> = ''bool'' \<and>
   CellValue_create example_lib married_db (PBool False) 1
     \<lparr>col_id = 1, col_table = 1, column_name = ''Married'', column_data_type = ''bool''\<rparr> 1 =
     (Inr \<lparr>cell_id = 1, cell_value = ''False'', cell_table = 1, table_column = 1, table_row = 1\<rparr>,
      married_db\<lparr>CellValue_objects :=
        [\<lparr>cell_id = 1, cell_value = ''False'', cell_table = 1, table_column = 1, table_row = 1\<rparr>]\<rparr>) \<and>
   \<not> truthy (PBool False :: unit pyval) \<and>
   validate_data_type example_lib (PBool False) (PBool False) ''bool'' = Inr (PStr [])"
proof -
  have h: "column_data_type
     \<lparr>col_id = 1, col_table = 1, column_name = ''Married'', column_data_type = ''bool''\<rparr> = ''bool''"
    by simp
  have f: "\<not> truthy (PBool False :: unit pyval)"
    by (simp add: truthy_def)
  have s: "py_str example_lib (PBool False) = ''False''"
    by (simp add: py_str_def)
  have cells: "CellValue_objects married_db = []"
    by code_simp
  have nid: "next_id [] = 1"
    by (simp add: next_id_def)
  show ?thesis
    using f
      bool_cell_storage [OF h, of example_lib married_db "PBool False" 1 1 "PBool False"]
    by (simp add: s title_False cells nid)
qed

subsection \<open>Link tables\<close>

lemma set_m2m_add: "set (m2m_add links owner members) = set links \<union> Pair owner ` set members"
  unfolding m2m_add_def
  by (induction members arbitrary: links) auto

subsection \<open>The declared type of a new column\<close>

lemma create_ok:
  assumes uniq: "name \<notin> set (map column_name (TableColumn_objects db))"
  shows "TableColumn_create db self name t =
    (Inr \<lparr>col_id = next_id (map col_id (TableColumn_objects db)), col_table = self,
             column_name = name, column_data_type = t\<rparr>,
     db\<lparr>TableColumn_objects := TableColumn_objects db @
        [\<lparr>col_id = next_id (map col_id (TableColumn_objects db)), col_table = self,
             column_name = name, column_data_type = t\<rparr>]\<rparr>)"
  using uniq by (simp add: TableColumn_create_def Let_def)

lemma add_column_ok:
  assumes sup: "data_type_is_supported t"
    and new: "is_column db self name = Inr False"
    and uniq: "name \<notin> set (map column_name (TableColumn_objects db))"
  shows "add_column db self (Str name) (Str t) =
    (Inr \<lparr>col_id = next_id (map col_id (TableColumn_objects db)), col_table = self,
             column_name = name, column_data_type = t\<rparr>,
     db\<lparr>TableColumn_objects := TableColumn_objects db @
        [\<lparr>col_id = next_id (map col_id (TableColumn_objects db)), col_table = self,
             column_name = name, column_data_type = t\<rparr>],
        table_columns := m2m_add (table_columns db) self [next_id (map col_id (TableColumn_objects db))]\<rparr>)"
  using sup new by (simp add: add_column_def create_ok [OF uniq])

lemma validate_no_branch:
  assumes "t \<notin> {''char'', ''textfield'', ''int'', ''float'', ''datetime'', ''bool''}"
  shows "validate_data_type L sv v t = Inr sv"
  using assms by (simp add: validate_data_type_def)

lemma saved_value_no_branch:
  assumes "t \<notin> {''char'', ''textfield'', ''int'', ''float'', ''datetime'', ''bool''}"
  shows "saved_value L v t = (if v = PNone then Inl IntegrityError else Inr (py_str L v))"
  using assms
  by (cases v)
    (simp_all add: saved_value_def full_clean_def clean_fields_def validate_data_type_def
      py_str_def)

lemma chr_supported: "data_type_is_supported '' ChAr ''"
  by code_simp

lemma new_column_listed:
  "c \<in> set (table_columns_all
     (db\<lparr>TableColumn_objects := TableColumn_objects db @ [c],
         table_columns := m2m_add (table_columns db) self [col_id c]\<rparr>) self)"
  by (simp add: table_columns_all_def set_m2m_add)

text \<open>
  Claim C10: \<^verbatim>\<open>add_column\<close> lower-cases and trims the type only to test that it is
  supported and stores the caller's text as the declared type.  So \<^verbatim>\<open>add_column(name,
  " ChAr ")\<close> succeeds on a table that has no column of that name (no column of that
  name being stored anywhere), and the new column is listed with the declared type
  \<^verbatim>\<open>" ChAr "\<close>.  That text is none of the six that \<^verbatim>\<open>__validate_data_type__\<close> tests
  for, so under such a column the method keeps every value as it is, and the cell is
  written with the string form of the value it was given, whatever the value is.  The one
  value that gives no cell is \<^verbatim>\<open>None\<close>: nothing replaces it, and the storage layer
  refuses it with \<^verbatim>\<open>IntegrityError\<close>.
\<close>

theorem add_column_keeps_raw_type:
  assumes sup: "data_type_is_supported t"
    and new: "is_column db self name = Inr False"
    and uniq: "name \<notin> set (map column_name (TableColumn_objects db))"
  shows "data_type_is_supported '' ChAr '' \<and>
    '' ChAr '' \<notin> {''char'', ''textfield'', ''int'', ''float'', ''datetime'', ''bool''} \<and>
    (\<exists>c db'. add_column db self (Str name) (Str t) = (Inr c, db') \<and>
       column_name c = name \<and> column_data_type c = t \<and>
       c \<in> set (table_columns_all db' self) \<and>
       (t \<notin> {''char'', ''textfield'', ''int'', ''float'', ''datetime'', ''bool''} \<longrightarrow>
          validate_data_type L sv v (column_data_type c) = Inr sv \<and>
          CellValue_create L dbx PNone self c row = (Inl IntegrityError, dbx) \<and>
          (v \<noteq> PNone \<longrightarrow>
             CellValue_create L dbx v self c row =
               (Inr \<lparr>cell_id = next_id (map cell_id (CellValue_objects dbx)),
                      cell_value = py_str L v, cell_table = self, table_column = col_id c,
                      table_row = row\<rparr>,
                dbx\<lparr>CellValue_objects := CellValue_objects dbx @
                  [\<lparr>cell_id = next_id (map cell_id (CellValue_objects dbx)),
                     cell_value = py_str L v, cell_table = self, table_column = col_id c,
                     table_row = row\<rparr>]\<rparr>))))"
proof -
  define c where "c = \<lparr>col_id = next_id (map col_id (TableColumn_objects db)), col_table = self,
             column_name = name, column_data_type = t\<rparr>"
  define db' where "db' = db\<lparr>TableColumn_objects := TableColumn_objects db @ [c],
        table_columns := m2m_add (table_columns db) self [col_id c]\<rparr>"
  have res: "add_column db self (Str name) (Str t) = (Inr c, db')"
    unfolding c_def db'_def using add_column_ok [OF sup new uniq] by simp
  have nm: "column_name c = name" and ty: "column_data_type c = t"
    by (simp_all add: c_def)
  have mem: "c \<in> set (table_columns_all db' self)"
    unfolding db'_def by (rule new_column_listed)
  have nb: "t \<notin> {''char'', ''textfield'', ''int'', ''float'', ''datetime'', ''bool''} \<longrightarrow>
          validate_data_type L sv v (column_data_type c) = Inr sv \<and>
          CellValue_create L dbx PNone self c row = (Inl IntegrityError, dbx) \<and>
          (v \<noteq> PNone \<longrightarrow>
             CellValue_create L dbx v self c row =
               (Inr \<lparr>cell_id = next_id (map cell_id (CellValue_objects dbx)),
                      cell_value = py_str L v, cell_table = self, table_column = col_id c,
                      table_row = row\<rparr>,
                dbx\<lparr>CellValue_objects := CellValue_objects dbx @
                  [\<lparr>cell_id = next_id (map cell_id (CellValue_objects dbx)),
                     cell_value = py_str L v, cell_table = self, table_column = col_id c,
                     table_row = row\<rparr>]\<rparr>))"
  proof
    assume "t \<notin> {''char'', ''textfield'', ''int'', ''float'', ''datetime'', ''bool''}"
    with ty have *: "column_data_type c \<notin>
        {''char'', ''textfield'', ''int'', ''float'', ''datetime'', ''bool''}"
      by simp
    have kept: "validate_data_type L sv v (column_data_type c) = Inr sv"
      by (rule validate_no_branch [OF *])
    have none: "CellValue_create L dbx PNone self c row = (Inl IntegrityError, dbx)"
      by (rule CellValue_create_fail) (simp add: saved_value_no_branch [OF *])
    have some: "v \<noteq> PNone \<longrightarrow>
             CellValue_create L dbx v self c row =
               (Inr \<lparr>cell_id = next_id (map cell_id (CellValue_objects dbx)),
                      cell_value = py_str L v, cell_table = self, table_column = col_id c,
                      table_row = row\<rparr>,
                dbx\<lparr>CellValue_objects := CellValue_objects dbx @
                  [\<lparr>cell_id = next_id (map cell_id (CellValue_objects dbx)),
                     cell_value = py_str L v, cell_table = self, table_column = col_id c,
                     table_row = row\<rparr>]\<rparr>)"
    proof
      assume "v \<noteq> PNone"
      then have "saved_value L v (column_data_type c) = Inr (py_str L v)"
        by (simp add: saved_value_no_branch [OF *])
      then show "CellValue_create L dbx v self c row =
               (Inr \<lparr>cell_id = next_id (map cell_id (CellValue_objects dbx)),
                      cell_value = py_str L v, cell_table = self, table_column = col_id c,
                      table_row = row\<rparr>,
                dbx\<lparr>CellValue_objects := CellValue_objects dbx @
                  [\<lparr>cell_id = next_id (map cell_id (CellValue_objects dbx)),
                     cell_value = py_str L v, cell_table = self, table_column = col_id c,
                     table_row = row\<rparr>]\<rparr>)"
        by (rule CellValue_create_ok)
    qed
    show "validate_data_type L sv v (column_data_type c) = Inr sv \<and>
          CellValue_create L dbx PNone self c row = (Inl IntegrityError, dbx) \<and>
          (v \<noteq> PNone \<longrightarrow>
             CellValue_create L dbx v self c row =
               (Inr \<lparr>cell_id = next_id (map cell_id (CellValue_objects dbx)),
                      cell_value = py_str L v, cell_table = self, table_column = col_id c,
                      table_row = row\<rparr>,
                dbx\<lparr>CellValue_objects := CellValue_objects dbx @
                  [\<lparr>cell_id = next_id (map cell_id (CellValue_objects dbx)),
                     cell_value = py_str L v, cell_table = self, table_column = col_id c,
                     table_row = row\<rparr>]\<rparr>))"
      by (rule conjI [OF kept conjI [OF none some]])
  qed
  have raw: "'' ChAr '' \<notin> {''char'', ''textfield'', ''int'', ''float'', ''datetime'', ''bool''}"
    by simp
  from res nm ty mem nb
  have ex: "\<exists>c db'. add_column db self (Str name) (Str t) = (Inr c, db') \<and>
       column_name c = name \<and> column_data_type c = t \<and>
       c \<in> set (table_columns_all db' self) \<and>
       (t \<notin> {''char'', ''textfield'', ''int'', ''float'', ''datetime'', ''bool''} \<longrightarrow>
          validate_data_type L sv v (column_data_type c) = Inr sv \<and>
          CellValue_create L dbx PNone self c row = (Inl IntegrityError, dbx) \<and>
          (v \<noteq> PNone \<longrightarrow>
             CellValue_create L dbx v self c row =
               (Inr \<lparr>cell_id = next_id (map cell_id (CellValue_objects dbx)),
                      cell_value = py_str L v, cell_table = self, table_column = col_id c,
                      table_row = row\<rparr>,
                dbx\<lparr>CellValue_objects := CellValue_objects dbx @
                  [\<lparr>cell_id = next_id (map cell_id (CellValue_objects dbx)),
                     cell_value = py_str L v, cell_table = self, table_column = col_id c,
                     table_row = row\<rparr>]\<rparr>)))"
    by (intro exI conjI)
  show ?thesis
    by (rule conjI [OF chr_supported conjI [OF raw ex]])
qed

theorem add_column_keeps_raw_type_witness:
  "data_type_is_supported '' ChAr '' \<and>
   is_column empty_db 1 ''Note'' = Inr False \<and>
   ''Note'' \<notin> set (map column_name (TableColumn_objects empty_db)) \<and>
   (\<exists>c db'. add_column empty_db 1 (Str ''Note'') (Str '' ChAr '') = (Inr c, db') \<and>
      column_name c = ''Note'' \<and> column_data_type c = '' ChAr '' \<and>
      c \<in> set (table_columns_all db' 1) \<and>
      validate_data_type example_lib (PStr ''3o'') (PStr ''3o'') (column_data_type c) =
        Inr (PStr ''3o'') \<and>
      CellValue_create example_lib empty_db PNone 1 c 1 = (Inl IntegrityError, empty_db) \<and>
      CellValue_create example_lib empty_db (PStr ''3o'') 1 c 1 =
        (Inr \<lparr>cell_id = 1, cell_value = ''3o'', cell_table = 1, table_column = col_id c,
               table_row = 1\<rparr>,
         empty_db\<lparr>CellValue_objects :=
           [\<lparr>cell_id = 1, cell_value = ''3o'', cell_table = 1, table_column = col_id c,
              table_row = 1\<rparr>]\<rparr>))"
proof -
  have sup: "data_type_is_supported '' ChAr ''" by code_simp
  have new: "is_column empty_db 1 ''Note'' = Inr False" by code_simp
  have uniq: "''Note'' \<notin> set (map column_name (TableColumn_objects empty_db))"
    by (simp add: empty_db_def)
  have cells: "CellValue_objects empty_db = []"
    by (simp add: empty_db_def)
  have nid: "next_id [] = 1"
    by (simp add: next_id_def)
  have s: "py_str example_lib (PStr ''3o'') = ''3o''"
    by (simp add: py_str_def)
  show ?thesis
    using sup new uniq
      add_column_keeps_raw_type [OF sup new uniq, of example_lib "PStr ''3o''" "PStr ''3o''" empty_db 1]
    by (simp add: cells nid s)
qed

subsection \<open>Adding columns in bulk\<close>

lemma are_columns_none:
  "are_columns db self ns = Inr bs \<Longrightarrow> True \<notin> set bs \<Longrightarrow>
     list_all (\<lambda>n. is_column db self n = Inr False) ns"
  by (induction ns arbitrary: bs) (auto split: sum.splits)

lemma all_supported:
  "False \<notin> set (data_types_are_supported ts) \<Longrightarrow> list_all data_type_is_supported ts"
  by (induction ts) (auto simp: data_types_are_supported_def data_type_is_supported_def)

lemma create_columns_error:
  "create_columns db self zs = (Inl e, db') \<Longrightarrow> e = IntegrityError"
proof (induction zs arbitrary: db db')
  case Nil
  then show ?case by simp
next
  case (Cons z zs)
  obtain name t where z: "z = (name, t)" by (cases z)
  from Cons.prems Cons.IH show ?case
    unfolding z
    by (auto simp: TableColumn_create_def Let_def split: if_splits prod.splits sum.splits)
qed

lemma char_char_supported: "data_types_are_supported [''char'', ''char''] = [True, True]"
  by code_simp

lemma duplicate_names:
  "bulk_add_columns db self (Seq [''A'', ''A'']) (Seq [''char'', ''char'']) =
     (Inl DuplicateColumnInTable, db)"
  by (simp add: bulk_add_columns_def char_char_supported)

lemma bulk_changed:
  assumes "snd (bulk_add_columns db self names types) \<noteq> db"
  shows "\<exists>ns ts. names = Seq ns \<and> types = Seq ts \<and> length ns = length ts \<and>
     list_all data_type_is_supported ts \<and> distinct ns \<and>
     list_all (\<lambda>n. is_column db self n = Inr False) ns"
proof -
  from assms obtain ns ts where nt: "names = Seq ns" "types = Seq ts"
    by (cases names; cases types) (auto simp: bulk_add_columns_def)
  from assms have len: "length ns = length ts"
    unfolding nt by (auto simp: bulk_add_columns_def split: if_splits)
  from assms len have sup: "False \<notin> set (data_types_are_supported ts)"
    unfolding nt by (auto simp: bulk_add_columns_def split: if_splits)
  from assms len sup have card: "length ns = card (set ns)"
    unfolding nt by (auto simp: bulk_add_columns_def split: if_splits)
  from assms len sup card obtain bs where bs: "are_columns db self ns = Inr bs" "True \<notin> set bs"
    unfolding nt by (auto simp: bulk_add_columns_def split: if_splits sum.splits)
  from card have "distinct ns" by (simp add: card_distinct)
  with nt len all_supported [OF sup] are_columns_none [OF bs] show ?thesis by blast
qed

lemma bulk_validation_error:
  assumes "fst (bulk_add_columns db self names types) \<in>
     {Inl DynamicTableError, Inl UnSupportedDataType, Inl DuplicateColumnInTable,
      Inl MultipleObjectsReturned}"
  shows "snd (bulk_add_columns db self names types) = db"
proof (rule ccontr)
  assume ch: "snd (bulk_add_columns db self names types) \<noteq> db"
  from bulk_changed [OF ch] obtain ns ts where nt: "names = Seq ns" "types = Seq ts"
    and len: "length ns = length ts" and sup: "list_all data_type_is_supported ts"
    and dis: "distinct ns" and new: "list_all (\<lambda>n. is_column db self n = Inr False) ns"
    by blast
  obtain r db' where cr: "create_columns db self (zip ns ts) = (r, db')"
    by (cases "create_columns db self (zip ns ts)")
  from assms ch cr create_columns_error [of db self "zip ns ts" _ db'] show False
    unfolding nt
    by (auto simp: bulk_add_columns_def split: if_splits sum.splits)
qed

lemma not_all_supported:
  "list_all data_type_is_supported ts \<Longrightarrow> False \<notin> set (data_types_are_supported ts)"
  by (induction ts) (auto simp: data_types_are_supported_def data_type_is_supported_def)

lemma duplicate_in_names:
  assumes len: "length ns = length ts"
    and sup: "list_all data_type_is_supported ts"
    and dup: "\<not> distinct ns"
  shows "bulk_add_columns db self (Seq ns) (Seq ts) = (Inl DuplicateColumnInTable, db)"
proof -
  from dup have "length ns \<noteq> card (set ns)"
    using card_distinct [of ns] by auto
  with len not_all_supported [OF sup] show ?thesis
    by (simp add: bulk_add_columns_def)
qed

lemma duplicate_creates_nothing:
  assumes dup: "\<not> distinct ns"
  shows "snd (bulk_add_columns db self (Seq ns) types) = db \<and>
     fst (bulk_add_columns db self (Seq ns) types) \<in>
       {Inl DynamicTableError, Inl UnSupportedDataType, Inl DuplicateColumnInTable}"
proof -
  from dup have "length ns \<noteq> card (set ns)"
    using card_distinct [of ns] by auto
  then show ?thesis
    by (cases types) (simp_all add: bulk_add_columns_def)
qed

text \<open>
  Claim C6: \<^verbatim>\<open>bulk_add_columns\<close> with names that contain a duplicate, types of the same
  number and all supported, raises \<^verbatim>\<open>DuplicateColumnInTable\<close> on every table and leaves
  the storage as it was; with any second argument such a call creates nothing and raises
  the error of the first check that fails.  The call with \<^verbatim>\<open>["A", "A"]\<close> and
  \<^verbatim>\<open>["char", "char"]\<close> is an instance.  In general nothing is created or attached before
  all the checks have passed: whenever the call changes the storage, both arguments were
  sequences of the same length, every type was supported, the names were distinct and
  none of them named a column of the table.  A call that ends in one of the errors of the
  checks has changed nothing.
\<close>

theorem bulk_add_columns_validates_first:
  "(length ns = length ts \<and> list_all data_type_is_supported ts \<and> \<not> distinct ns \<longrightarrow>
      bulk_add_columns db self (Seq ns) (Seq ts) = (Inl DuplicateColumnInTable, db)) \<and>
   (\<not> distinct ns \<longrightarrow>
      snd (bulk_add_columns db self (Seq ns) types) = db \<and>
      fst (bulk_add_columns db self (Seq ns) types) \<in>
        {Inl DynamicTableError, Inl UnSupportedDataType, Inl DuplicateColumnInTable}) \<and>
   bulk_add_columns db self (Seq [''A'', ''A'']) (Seq [''char'', ''char'']) =
     (Inl DuplicateColumnInTable, db) \<and>
   (snd (bulk_add_columns db self names types) \<noteq> db \<longrightarrow>
      (\<exists>ns ts. names = Seq ns \<and> types = Seq ts \<and> length ns = length ts \<and>
         list_all data_type_is_supported ts \<and> distinct ns \<and>
         list_all (\<lambda>n. is_column db self n = Inr False) ns)) \<and>
   (fst (bulk_add_columns db self names types) \<in>
      {Inl DynamicTableError, Inl UnSupportedDataType, Inl DuplicateColumnInTable,
       Inl MultipleObjectsReturned} \<longrightarrow>
      snd (bulk_add_columns db self names types) = db)"
proof -
  have general: "length ns = length ts \<and> list_all data_type_is_supported ts \<and> \<not> distinct ns \<longrightarrow>
      bulk_add_columns db self (Seq ns) (Seq ts) = (Inl DuplicateColumnInTable, db)"
    using duplicate_in_names by blast
  have untouched: "\<not> distinct ns \<longrightarrow>
      snd (bulk_add_columns db self (Seq ns) types) = db \<and>
      fst (bulk_add_columns db self (Seq ns) types) \<in>
        {Inl DynamicTableError, Inl UnSupportedDataType, Inl DuplicateColumnInTable}"
    using duplicate_creates_nothing by blast
  have changed: "snd (bulk_add_columns db self names types) \<noteq> db \<longrightarrow>
      (\<exists>ns ts. names = Seq ns \<and> types = Seq ts \<and> length ns = length ts \<and>
         list_all data_type_is_supported ts \<and> distinct ns \<and>
         list_all (\<lambda>n. is_column db self n = Inr False) ns)"
    using bulk_changed by blast
  have refused: "fst (bulk_add_columns db self names types) \<in>
      {Inl DynamicTableError, Inl UnSupportedDataType, Inl DuplicateColumnInTable,
       Inl MultipleObjectsReturned} \<longrightarrow>
      snd (bulk_add_columns db self names types) = db"
    using bulk_validation_error by blast
  have twice: "bulk_add_columns db self (Seq [''A'', ''A'']) (Seq [''char'', ''char'']) =
     (Inl DuplicateColumnInTable, db)"
    by (rule duplicate_names)
  show ?thesis
    using general untouched twice changed refused by (intro conjI)
qed

theorem bulk_add_columns_validates_first_witness:
  "length [''First Name'', ''Bio'', ''First Name''] = length [''char'', ''textfield'', ''char''] \<and>
   list_all data_type_is_supported [''char'', ''textfield'', ''char''] \<and>
   \<not> distinct [''First Name'', ''Bio'', ''First Name''] \<and>
   bulk_add_columns names_db 1 (Seq [''First Name'', ''Bio'', ''First Name''])
       (Seq [''char'', ''textfield'', ''char'']) = (Inl DuplicateColumnInTable, names_db) \<and>
   snd (bulk_add_columns empty_db 1 (Seq [''A'', ''B'']) (Seq [''char'', ''int''])) \<noteq> empty_db \<and>
   (\<exists>ns ts. Seq [''A'', ''B''] = Seq ns \<and> Seq [''char'', ''int''] = Seq ts \<and>
      length ns = length ts \<and> list_all data_type_is_supported ts \<and> distinct ns \<and>
      list_all (\<lambda>n. is_column empty_db 1 n = Inr False) ns) \<and>
   fst (bulk_add_columns empty_db 1 (Seq [''A'', ''B'']) (Seq [''char'', ''file''])) \<in>
      {Inl DynamicTableError, Inl UnSupportedDataType, Inl DuplicateColumnInTable,
       Inl MultipleObjectsReturned} \<and>
   snd (bulk_add_columns empty_db 1 (Seq [''A'', ''B'']) (Seq [''char'', ''file''])) = empty_db"
proof -
  have sup: "list_all data_type_is_supported [''char'', ''textfield'', ''char'']"
    by code_simp
  have dup: "\<not> distinct [''First Name'', ''Bio'', ''First Name'']"
    by simp
  have changed:
    "snd (bulk_add_columns empty_db 1 (Seq [''A'', ''B'']) (Seq [''char'', ''int''])) \<noteq> empty_db"
    by code_simp
  have refused: "fst (bulk_add_columns empty_db 1 (Seq [''A'', ''B'']) (Seq [''char'', ''file''])) =
      Inl UnSupportedDataType"
    by code_simp
  show ?thesis
    using sup dup changed refused
      bulk_add_columns_validates_first [where ns = "[''First Name'', ''Bio'', ''First Name'']"
        and ts = "[''char'', ''textfield'', ''char'']" and db = names_db and self = 1]
      bulk_add_columns_validates_first [where db = empty_db and self = 1
        and names = "Seq [''A'', ''B'']" and types = "Seq [''char'', ''int'']"]
      bulk_add_columns_validates_first [where db = empty_db and self = 1
        and names = "Seq [''A'', ''B'']" and types = "Seq [''char'', ''file'']"]
    by simp
qed

subsection \<open>Adding a row\<close>


lemma saved_value_int_unparsable:
  assumes "v \<noteq> PNone" and "py_str L v \<noteq> []" and "float_of_str (py_str L v) = None"
  shows "saved_value L v ''int'' = Inl CantParseValueToDataType"
  using assms
  by (cases v)
    (auto simp: saved_value_def full_clean_def clean_fields_def validate_data_type_def
      truthy_def isinstance_int_def py_int_float_def py_float_def reraise_def py_str_def Let_def)

lemma add_row_cells_prefix:
  assumes "\<forall>c\<in>set pre. \<exists>s. saved_value L (dict_get d (column_name c)) (column_data_type c) = Inr s"
  shows "\<exists>cells db'.
     add_row_cells L db self rid d (pre @ rest) row =
       add_row_cells L db' self rid d rest (row @ cells) \<and>
     CellValue_objects db' = CellValue_objects db @ cells \<and>
     map table_column cells = map col_id pre \<and>
     map table_row cells = map (\<lambda>c. rid) pre \<and>
     map cell_value cells =
       map (\<lambda>c. case saved_value L (dict_get d (column_name c)) (column_data_type c) of
                  Inr s \<Rightarrow> s | Inl e \<Rightarrow> []) pre \<and>
     TableColumn_objects db' = TableColumn_objects db \<and>
     TableRow_objects db' = TableRow_objects db \<and>
     table_columns db' = table_columns db \<and>
     table_rows db' = table_rows db \<and>
     row_cells db' = row_cells db \<and>
     set (column_cells db') =
       set (column_cells db) \<union> (\<lambda>c. (table_column c, cell_id c)) ` set cells"
  using assms
proof (induction pre arbitrary: db row)
  case Nil
  show ?case
    by (rule exI [of _ "[]"], rule exI [of _ db]) simp
next
  case (Cons c cs)
  from Cons.prems obtain w where
    w: "saved_value L (dict_get d (column_name c)) (column_data_type c) = Inr w"
    by auto
  define cell where "cell = \<lparr>cell_id = next_id (map cell_id (CellValue_objects db)),
      cell_value = w, cell_table = self, table_column = col_id c, table_row = rid\<rparr>"
  define db2 where "db2 = db\<lparr>CellValue_objects := CellValue_objects db @ [cell],
      column_cells := m2m_add (column_cells db) (col_id c) [cell_id cell]\<rparr>"
  have step: "add_row_cells L db self rid d ((c # cs) @ rest) row =
      add_row_cells L db2 self rid d (cs @ rest) (row @ [cell])"
    by (simp add: CellValue_create_ok [OF w] cell_def db2_def)
  from Cons.prems have rest_ok:
    "\<forall>c\<in>set cs. \<exists>s. saved_value L (dict_get d (column_name c)) (column_data_type c) = Inr s"
    by simp
  from Cons.IH [OF rest_ok, of db2 "row @ [cell]"]
  obtain cells db' where
    run: "add_row_cells L db2 self rid d (cs @ rest) (row @ [cell]) =
       add_row_cells L db' self rid d rest ((row @ [cell]) @ cells)"
    and cv: "CellValue_objects db' = CellValue_objects db2 @ cells"
    and tc: "map table_column cells = map col_id cs"
    and tr: "map table_row cells = map (\<lambda>c. rid) cs"
    and vals: "map cell_value cells =
       map (\<lambda>c. case saved_value L (dict_get d (column_name c)) (column_data_type c) of
                  Inr s \<Rightarrow> s | Inl e \<Rightarrow> []) cs"
    and same: "TableColumn_objects db' = TableColumn_objects db2"
      "TableRow_objects db' = TableRow_objects db2"
      "table_columns db' = table_columns db2"
      "table_rows db' = table_rows db2"
      "row_cells db' = row_cells db2"
    and cc: "set (column_cells db') =
       set (column_cells db2) \<union> (\<lambda>c. (table_column c, cell_id c)) ` set cells"
    by blast
  show ?case
  proof (rule exI [of _ "cell # cells"], rule exI [of _ db'], intro conjI)
    show "add_row_cells L db self rid d ((c # cs) @ rest) row =
       add_row_cells L db' self rid d rest (row @ cell # cells)"
      using step run by simp
    show "CellValue_objects db' = CellValue_objects db @ cell # cells"
      using cv by (simp add: db2_def)
    show "map table_column (cell # cells) = map col_id (c # cs)"
      using tc by (simp add: cell_def)
    show "map table_row (cell # cells) = map (\<lambda>c. rid) (c # cs)"
      using tr by (simp add: cell_def)
    show "map cell_value (cell # cells) =
       map (\<lambda>c. case saved_value L (dict_get d (column_name c)) (column_data_type c) of
                  Inr s \<Rightarrow> s | Inl e \<Rightarrow> []) (c # cs)"
      using vals w by (simp add: cell_def)
    show "TableColumn_objects db' = TableColumn_objects db"
      using same by (simp add: db2_def)
    show "TableRow_objects db' = TableRow_objects db"
      using same by (simp add: db2_def)
    show "table_columns db' = table_columns db"
      using same by (simp add: db2_def)
    show "table_rows db' = table_rows db"
      using same by (simp add: db2_def)
    show "row_cells db' = row_cells db"
      using same by (simp add: db2_def)
    show "set (column_cells db') =
       set (column_cells db) \<union> (\<lambda>c. (table_column c, cell_id c)) ` set (cell # cells)"
      using cc by (auto simp: db2_def set_m2m_add cell_def)
  qed
qed


lemma le_foldr_max: "x \<in> set ids \<Longrightarrow> x \<le> foldr max ids (0::nat)"
  by (induction ids) auto

lemma next_id_fresh: "next_id ids \<notin> set ids"
proof
  assume "next_id ids \<in> set ids"
  from le_foldr_max [OF this] show False by (simp add: next_id_def)
qed


lemma people_columns:
  "table_columns_all people_db 1 =
     [\<lparr>col_id = 1, col_table = 1, column_name = ''Name'', column_data_type = ''char''\<rparr>,
      \<lparr>col_id = 2, col_table = 1, column_name = ''Age'', column_data_type = ''int''\<rparr>]"
  by code_simp



text \<open>
  Claim C2 says that after \<^verbatim>\<open>add_row\<close> has raised \<^verbatim>\<open>CantParseValueToDataType\<close> for an
  unparseable value of an \<^verbatim>\<open>int\<close> column, the row count and the cells visible to later
  reads are as before the call.  Nothing in the code undoes what the call has already
  written.  With the columns \<^verbatim>\<open>Name: char\<close> and \<^verbatim>\<open>Age: int\<close> and the row
  \<^verbatim>\<open>{"Name": "Sam", "Age": "3o"}\<close> the call raises, and afterwards the cell \<^verbatim>\<open>Sam\<close> is
  returned by \<^verbatim>\<open>get_column_cells\<close> and by \<^verbatim>\<open>get_cell\<close>, and \<^verbatim>\<open>get_row_cells\<close> of the
  new row's index returns the empty list where it raised \<^verbatim>\<open>RowNotInTable\<close> before.
\<close>

theorem add_row_failure_keeps_cells_counterexample:
  "fst (add_row example_lib people_db 1 (Dict sam_bad_row)) = Inl CantParseValueToDataType \<and>
   get_column_cells people_db 1 ''Name'' = Inr [] \<and>
   get_column_cells (snd (add_row example_lib people_db 1 (Dict sam_bad_row))) 1 ''Name'' =
     Inr [\<lparr>cell_id = 1, cell_value = ''Sam'', cell_table = 1, table_column = 1, table_row = 1\<rparr>] \<and>
   get_cell people_db 1 ''Name'' 1 = Inl CellDoesNotExist \<and>
   get_cell (snd (add_row example_lib people_db 1 (Dict sam_bad_row))) 1 ''Name'' 1 =
     Inr \<lparr>cell_id = 1, cell_value = ''Sam'', cell_table = 1, table_column = 1, table_row = 1\<rparr> \<and>
   get_row_cells people_db 1 1 = Inl RowNotInTable \<and>
   get_row_cells (snd (add_row example_lib people_db 1 (Dict sam_bad_row))) 1 1 = Inr []"
proof -
  have raised:
    "fst (add_row example_lib people_db 1 (Dict sam_bad_row)) = Inl CantParseValueToDataType"
    by code_simp
  have column_before: "get_column_cells people_db 1 ''Name'' = Inr []"
    by code_simp
  have column_after:
    "get_column_cells (snd (add_row example_lib people_db 1 (Dict sam_bad_row))) 1 ''Name'' =
     Inr [\<lparr>cell_id = 1, cell_value = ''Sam'', cell_table = 1, table_column = 1, table_row = 1\<rparr>]"
    by code_simp
  have cell_before: "get_cell people_db 1 ''Name'' 1 = Inl CellDoesNotExist"
    by code_simp
  have cell_after: "get_cell (snd (add_row example_lib people_db 1 (Dict sam_bad_row))) 1 ''Name'' 1 =
     Inr \<lparr>cell_id = 1, cell_value = ''Sam'', cell_table = 1, table_column = 1, table_row = 1\<rparr>"
    by code_simp
  have row_before: "get_row_cells people_db 1 1 = Inl RowNotInTable"
    by code_simp
  have row_after:
    "get_row_cells (snd (add_row example_lib people_db 1 (Dict sam_bad_row))) 1 1 = Inr []"
    by code_simp
  show ?thesis
    by (rule conjI [OF raised conjI [OF column_before conjI [OF column_after
          conjI [OF cell_before conjI [OF cell_after conjI [OF row_before row_after]]]]]])
qed

text \<open>
  Claim C2 as the code has it.  Let the table have a column of declared type \<^verbatim>\<open>int\<close>
  for which the dict holds a value other than \<^verbatim>\<open>None\<close> whose text is not empty and is
  not a number, and let every column before it receive a value that its cell accepts.
  Then \<^verbatim>\<open>add_row\<close> raises \<^verbatim>\<open>CantParseValueToDataType\<close>.  Afterwards the rows attached to
  the table are the same (provided that every row attached to a table is a stored row),
  and so is what \<^verbatim>\<open>table_info\<close> reports; no cell is attached to a row.  But the row
  object created at the start of the call stays stored, and so do the cells created for
  the columns before the \<^verbatim>\<open>int\<close> column, one for each, attached to their columns.
\<close>

theorem add_row_unparsable_int_aborts:
  assumes split: "table_columns_all db self = pre @ col # post"
    and pre_ok: "\<forall>c\<in>set pre. \<exists>s.
        saved_value L (dict_get d (column_name c)) (column_data_type c) = Inr s"
    and int: "column_data_type col = ''int''"
    and val: "d (column_name col) = Some v"
    and some: "v \<noteq> PNone"
    and nonblank: "py_str L v \<noteq> []"
    and bad: "float_of_str (py_str L v) = None"
    and links: "snd ` set (table_rows db) \<subseteq> set (map row_id (TableRow_objects db))"
  shows "\<exists>db' cells.
     add_row L db self (Dict d) = (Inl CantParseValueToDataType, db') \<and>
     table_rows db' = table_rows db \<and>
     table_rows_all db' self = table_rows_all db self \<and>
     table_info db' self = table_info db self \<and>
     row_cells db' = row_cells db \<and>
     TableRow_objects db' = TableRow_objects db @
       [\<lparr>row_id = next_id (map row_id (TableRow_objects db)), row_table = self\<rparr>] \<and>
     CellValue_objects db' = CellValue_objects db @ cells \<and>
     map table_column cells = map col_id pre \<and>
     map table_row cells = map (\<lambda>c. next_id (map row_id (TableRow_objects db))) pre \<and>
     set (column_cells db') =
       set (column_cells db) \<union> (\<lambda>c. (table_column c, cell_id c)) ` set cells"
proof -
  define r where "r = \<lparr>row_id = next_id (map row_id (TableRow_objects db)), row_table = self\<rparr>"
  define db1 where "db1 = db\<lparr>TableRow_objects := TableRow_objects db @ [r]\<rparr>"
  have rid: "row_id r = next_id (map row_id (TableRow_objects db))"
    by (simp add: r_def)
  have same_cols: "table_columns_all db1 self = pre @ col # post"
    using split by (simp add: table_columns_all_def db1_def)
  have nonempty: "total_table_columns db self \<noteq> 0"
    using split by (simp add: total_table_columns_def)
  from add_row_cells_prefix [OF pre_ok, of db1 self "row_id r" "col # post" "[]"]
  obtain cells db' where
    run: "add_row_cells L db1 self (row_id r) d (pre @ col # post) [] =
       add_row_cells L db' self (row_id r) d (col # post) cells"
    and cv: "CellValue_objects db' = CellValue_objects db1 @ cells"
    and tc: "map table_column cells = map col_id pre"
    and tr: "map table_row cells = map (\<lambda>c. row_id r) pre"
    and same: "TableColumn_objects db' = TableColumn_objects db1"
      "TableRow_objects db' = TableRow_objects db1"
      "table_columns db' = table_columns db1"
      "table_rows db' = table_rows db1"
      "row_cells db' = row_cells db1"
    and cc: "set (column_cells db') =
       set (column_cells db1) \<union> (\<lambda>c. (table_column c, cell_id c)) ` set cells"
    by auto
  have get: "dict_get d (column_name col) = v"
    using val by (simp add: dict_get_def)
  have fails: "CellValue_create L db' (dict_get d (column_name col)) self col (row_id r) =
      (Inl CantParseValueToDataType, db')"
    unfolding get
    by (rule CellValue_create_fail) (simp add: int saved_value_int_unparsable [OF some nonblank bad])
  have stop: "add_row_cells L db' self (row_id r) d (col # post) cells =
      (Inl CantParseValueToDataType, db')"
    by (simp add: fails)
  have res: "add_row L db self (Dict d) = (Inl CantParseValueToDataType, db')"
    using nonempty run stop
    by (simp add: add_row_def Let_def r_def [symmetric] db1_def [symmetric] same_cols)
  have fresh: "(self, row_id r) \<notin> set (table_rows db)"
  proof
    assume "(self, row_id r) \<in> set (table_rows db)"
    then have "snd (self, row_id r) \<in> snd ` set (table_rows db)" by (rule imageI)
    with links have "row_id r \<in> set (map row_id (TableRow_objects db))" by auto
    then show False using next_id_fresh [of "map row_id (TableRow_objects db)"] by (simp add: rid)
  qed
  have rows_all: "table_rows_all db' self = table_rows_all db self"
    using same fresh by (simp add: table_rows_all_def db1_def)
  have cols_all: "table_columns_all db' self = table_columns_all db self"
    using same by (simp add: table_columns_all_def db1_def)
  have info: "table_info db' self = table_info db self"
    unfolding table_info_def total_table_rows_def total_table_columns_def cols_all
    by (rule refl)
  have p1: "table_rows db' = table_rows db" using same by (simp add: db1_def)
  have p2: "row_cells db' = row_cells db" using same by (simp add: db1_def)
  have p3: "TableRow_objects db' = TableRow_objects db @
       [\<lparr>row_id = next_id (map row_id (TableRow_objects db)), row_table = self\<rparr>]"
    using same by (simp add: db1_def r_def)
  have p4: "CellValue_objects db' = CellValue_objects db @ cells" using cv by (simp add: db1_def)
  have p5: "set (column_cells db') =
       set (column_cells db) \<union> (\<lambda>c. (table_column c, cell_id c)) ` set cells"
    using cc by (simp add: db1_def)
  have p6: "map table_row cells = map (\<lambda>c. next_id (map row_id (TableRow_objects db))) pre"
    using tr by (simp add: rid)
  show ?thesis
    using res p1 rows_all info p2 p3 p4 tc p6 p5 by (intro exI conjI)
qed

theorem add_row_unparsable_int_aborts_witness:
  "table_columns_all people_db 1 = [name_column] @ age_column # [] \<and>
   saved_value example_lib (dict_get sam_bad_row (column_name name_column))
     (column_data_type name_column) = Inr ''Sam'' \<and>
   column_data_type age_column = ''int'' \<and>
   sam_bad_row (column_name age_column) = Some (PStr ''3o'') \<and>
   py_str example_lib (PStr ''3o'') = ''3o'' \<and>
   float_of_str ''3o'' = None \<and>
   table_rows people_db = [] \<and>
   (\<exists>db' cells.
     add_row example_lib people_db 1 (Dict sam_bad_row) = (Inl CantParseValueToDataType, db') \<and>
     table_rows db' = table_rows people_db \<and>
     table_rows_all db' 1 = table_rows_all people_db 1 \<and>
     table_info db' 1 = table_info people_db 1 \<and>
     row_cells db' = row_cells people_db \<and>
     TableRow_objects db' = TableRow_objects people_db @
       [\<lparr>row_id = next_id (map row_id (TableRow_objects people_db)), row_table = 1\<rparr>] \<and>
     CellValue_objects db' = CellValue_objects people_db @ cells \<and>
     map table_column cells = map col_id [name_column] \<and>
     map table_row cells =
       map (\<lambda>c. next_id (map row_id (TableRow_objects people_db))) [name_column] \<and>
     set (column_cells db') =
       set (column_cells people_db) \<union> (\<lambda>c. (table_column c, cell_id c)) ` set cells)"
proof -
  have split: "table_columns_all people_db 1 = [name_column] @ age_column # []"
    unfolding people_columns name_column_def age_column_def by simp
  have sam: "saved_value example_lib (dict_get sam_bad_row (column_name name_column))
     (column_data_type name_column) = Inr ''Sam''"
    by code_simp
  have pre_ok: "\<forall>c\<in>set [name_column]. \<exists>s.
      saved_value example_lib (dict_get sam_bad_row (column_name c)) (column_data_type c) = Inr s"
    using sam by simp
  have int: "column_data_type age_column = ''int''"
    by (simp add: age_column_def)
  have val: "sam_bad_row (column_name age_column) = Some (PStr ''3o'')"
    by (simp add: age_column_def sam_bad_row_def)
  have some: "PStr ''3o'' \<noteq> (PNone :: unit pyval)"
    by simp
  have str: "py_str example_lib (PStr ''3o'') = ''3o''"
    by (simp add: py_str_def)
  have nonblank: "py_str example_lib (PStr ''3o'') \<noteq> []"
    by (simp add: py_str_def)
  have unparsable: "float_of_str ''3o'' = None"
    by code_simp
  have bad: "float_of_str (py_str example_lib (PStr ''3o'')) = None"
    unfolding str by (rule unparsable)
  have no_rows: "table_rows people_db = []"
    by code_simp
  have links: "snd ` set (table_rows people_db) \<subseteq> set (map row_id (TableRow_objects people_db))"
    unfolding no_rows by simp
  show ?thesis
    by (rule conjI [OF split conjI [OF sam conjI [OF int conjI [OF val conjI [OF str
          conjI [OF unparsable conjI [OF no_rows
            add_row_unparsable_int_aborts [OF split pre_ok int val some nonblank bad links]]]]]]]])
qed

end
